theory Spec2Isabelle
  imports Main "HOL-Library.Word"
begin

unbundle bit_operations_syntax

section \<open>fs\_mgr\_format.c: data model\<close>

text \<open>
  The embedding follows \<^verbatim>\<open>fs_mgr/fs_mgr_format.c\<close>. Everything the C functions ask of
  the kernel or of an external library (open, ioctl, lseek64, read, write, fork, waitpid,
  make\_ext4fs\_internal) is answered by an explicit oracle record \<open>os\<close>; every request
  is recorded, in program order, in a list of events that is returned with the C return
  value. Logging (ERROR, INFO) has no effect on either and is left out. The host is
  little-endian, as every target of this code is, so \<^verbatim>\<open>le32_to_cpu\<close> is the identity
  and a word in memory is read least significant byte first.
\<close>

type_synonym byte = "8 word"

text \<open>\<^verbatim>\<open>struct fstab_rec\<close>, the fields this file reads. A \<^verbatim>\<open>NULL\<close> key location is
  \<open>None\<close>.\<close>

record fstab_rec =
  blk_device :: string
  mount_point :: string
  fs_type :: string
  key_loc :: "string option"
  encryptable :: bool

text \<open>Modelled from the spec: \<^verbatim>\<open>fs_mgr_is_encryptable\<close> is defined in another file of
  fs\_mgr that is not part of the sources at hand; the specification describes it as the
  descriptor declaring the partition encryptable.\<close>

definition fs_mgr_is_encryptable :: "fstab_rec \<Rightarrow> bool" where
  "fs_mgr_is_encryptable fstab = encryptable fstab"

text \<open>
  Constants and type layouts that come from headers outside this file
  (\<^verbatim>\<open>cryptfs.h\<close>, \<^verbatim>\<open>ext4.h\<close>) are parameters. \<^verbatim>\<open>CRYPT_FOOTER_OFFSET\<close> is used as an
  \<^verbatim>\<open>int\<close> (\<^verbatim>\<open>int footer = needs_footer ? CRYPT_FOOTER_OFFSET : 0\<close>), hence a 32-bit word
  read as two's complement.
\<close>

record headers =
  CRYPT_FOOTER_OFFSET :: "32 word"
  sizeof_crypt_mnt_ftr :: nat
  sizeof_ext4_super_block :: nat
  offsetof_s_magic :: nat

definition CRYPT_KEY_IN_FOOTER :: string where
  "CRYPT_KEY_IN_FOOTER = ''footer''"

definition CRYPT_MAGIC :: "32 word" where
  "CRYPT_MAGIC = 0xD0B5B1C4"

definition F2FS_SUPER_MAGIC :: "32 word" where
  "F2FS_SUPER_MAGIC = 0xF2F52010"

definition EXT4_SUPER_MAGIC :: "32 word" where
  "EXT4_SUPER_MAGIC = 0xEF53"

definition TOTAL_SECTORS :: nat where
  "TOTAL_SECTORS = 16"

definition EINVAL :: int where
  "EINVAL = 22"

subsection \<open>The environment\<close>

text \<open>What one call of \<^verbatim>\<open>waitpid(pid, &rc, 0)\<close> does: it returns the pid of a child whose
  state changed and stores the status, or it returns -1 and leaves \<^verbatim>\<open>rc\<close> alone.\<close>

datatype wait_outcome = Reaped int int | Wait_failed

fun waitpid_ret :: "wait_outcome \<Rightarrow> int" where
  "waitpid_ret (Reaped p s) = p"
| "waitpid_ret Wait_failed = - 1"

fun waitpid_status :: "wait_outcome \<Rightarrow> int \<Rightarrow> int" where
  "waitpid_status (Reaped p s) rc = s"
| "waitpid_status Wait_failed rc = rc"

text \<open>The status macros of \<^verbatim>\<open><sys/wait.h>\<close> on Linux.\<close>

definition WIFEXITED :: "int \<Rightarrow> bool" where
  "WIFEXITED s = (s AND 0x7f = 0)"

definition WEXITSTATUS :: "int \<Rightarrow> int" where
  "WEXITSTATUS s = drop_bit 8 (s AND 0xff00)"

record os =
  os_calloc :: bool
  os_open :: "string \<Rightarrow> bool"
  os_blkgetsize :: "string \<Rightarrow> 32 word option"
  os_lseek64 :: "string \<Rightarrow> 64 word \<Rightarrow> bool"
  os_read :: "string \<Rightarrow> 64 word \<Rightarrow> nat \<Rightarrow> byte list option"
  os_write :: "string \<Rightarrow> 64 word \<Rightarrow> byte list \<Rightarrow> int"
  os_make_ext4fs :: "64 word \<Rightarrow> string \<Rightarrow> int"
  os_fork :: int
  os_execv :: bool
  os_waitpid :: "nat \<Rightarrow> wait_outcome"

text \<open>
  \<^item> \<open>os_open path\<close>: whether \<^verbatim>\<open>open\<close> gives a descriptor (\<open>False\<close>: it returns -1);
  \<^item> \<open>os_blkgetsize path\<close>: the sector count \<^verbatim>\<open>ioctl(BLKGETSIZE)\<close> stores, \<open>None\<close> when it
    returns -1;
  \<^item> \<open>os_lseek64 path off\<close>: whether the seek succeeds (\<open>False\<close>: it returns -1);
  \<^item> \<open>os_read path pos n\<close>: the bytes \<^verbatim>\<open>read\<close> delivers for a request of \<open>n\<close> bytes at
    file position \<open>pos\<close>, \<open>None\<close> when it returns -1; its return value is their number;
  \<^item> \<open>os_write path pos bs\<close>: the return value of \<^verbatim>\<open>write\<close>;
  \<^item> \<open>os_make_ext4fs len mnt\<close>: the return value of \<^verbatim>\<open>make_ext4fs_internal\<close> when the
    global \<^verbatim>\<open>info.len\<close> holds \<open>len\<close>;
  \<^item> \<open>os_fork\<close>: the return value of \<^verbatim>\<open>fork\<close> (0 in the child);
  \<^item> \<open>os_execv\<close>: whether \<^verbatim>\<open>execv\<close> replaces the process image (\<open>False\<close>: it returns);
  \<^item> \<open>os_waitpid n\<close>: what the call number \<open>n\<close> of \<^verbatim>\<open>waitpid\<close> does.
\<close>

datatype oflag = O_RDONLY | O_RDWR

datatype event =
    Open string oflag
  | Blkgetsize string
  | Lseek64 string "64 word"
  | Read string nat
  | Write string "byte list" int
  | Close string
  | Reset_ext4fs_info
  | Make_ext4fs "64 word" string
  | Fork
  | Execv string "string list"
  | Exit int
  | Waitpid int

text \<open>The kinds of events the properties below tell apart: requests on a file or device,
  the steps of the f2fs child process, the calls into the ext4 library.\<close>

fun device_io :: "event \<Rightarrow> bool" where
  "device_io (Open path fl) = True"
| "device_io (Blkgetsize path) = True"
| "device_io (Lseek64 path off) = True"
| "device_io (Read path n) = True"
| "device_io (Write path bs r) = True"
| "device_io (Close path) = True"
| "device_io e = False"

fun f2fs_subprocess :: "event \<Rightarrow> bool" where
  "f2fs_subprocess Fork = True"
| "f2fs_subprocess (Execv path args) = True"
| "f2fs_subprocess (Exit c) = True"
| "f2fs_subprocess (Waitpid p) = True"
| "f2fs_subprocess e = False"

fun ext4_builder :: "event \<Rightarrow> bool" where
  "ext4_builder Reset_ext4fs_info = True"
| "ext4_builder (Make_ext4fs len mnt) = True"
| "ext4_builder e = False"

text \<open>What C leaves undefined and the model reports: reading through a \<^verbatim>\<open>NULL\<close>
  pointer, reading past the end of the allocated block.\<close>

datatype fault = Null_deref | Out_of_bounds

subsection \<open>Strings and memory\<close>

text \<open>\<^verbatim>\<open>strncmp(a, b, n) == 0\<close> on NUL-terminated strings: the end of a list is the
  terminator.\<close>

fun strncmp_eq :: "string \<Rightarrow> string \<Rightarrow> nat \<Rightarrow> bool" where
  "strncmp_eq a b 0 = True"
| "strncmp_eq [] [] (Suc n) = True"
| "strncmp_eq (x # a) (y # b) (Suc n) = (x = y \<and> strncmp_eq a b n)"
| "strncmp_eq a b (Suc n) = False"

text \<open>\<^verbatim>\<open>n\<close> bytes of a block at byte offset \<open>off\<close>; outside the block there is nothing to
  read.\<close>

definition load :: "byte list \<Rightarrow> nat \<Rightarrow> nat \<Rightarrow> byte list option" where
  "load block off n = (if off + n \<le> length block then Some (take n (drop off block)) else None)"

text \<open>The value of bytes read least significant first.\<close>

fun le_bytes :: "byte list \<Rightarrow> nat" where
  "le_bytes [] = 0"
| "le_bytes (b # bs) = unat b + 256 * le_bytes bs"

definition le32 :: "byte list \<Rightarrow> 32 word" where
  "le32 bs = of_nat (le_bytes bs)"

definition le16 :: "byte list \<Rightarrow> 16 word" where
  "le16 bs = of_nat (le_bytes bs)"

text \<open>\<^verbatim>\<open>snprintf(buf, sz, "%d", v)\<close>: the decimal digits of \<open>v\<close>, cut to \<open>sz - 1\<close>
  characters.\<close>

fun string_of_nat :: "nat \<Rightarrow> string" where
  "string_of_nat n =
     (if n < 10 then [''0123456789'' ! n]
      else string_of_nat (n div 10) @ [''0123456789'' ! (n mod 10)])"

declare string_of_nat.simps [simp del]

definition string_of_int :: "int \<Rightarrow> string" where
  "string_of_int v = (if v < 0 then CHR ''-'' # string_of_nat (nat (- v)) else string_of_nat (nat v))"

definition snprintf_d :: "nat \<Rightarrow> int \<Rightarrow> string" where
  "snprintf_d sz v = take (sz - 1) (string_of_int v)"

section \<open>The encryption marker\<close>

text \<open>The tail of \<^verbatim>\<open>fs_mgr_is_partition_encrypted\<close>, from the \<^verbatim>\<open>read\<close> on: \<open>path\<close> is the
  file behind \<^verbatim>\<open>fd\<close>, \<open>pos\<close> its file position, \<open>tr\<close> the events so far.\<close>

definition read_crypt_magic :: "os \<Rightarrow> string \<Rightarrow> 64 word \<Rightarrow> event list \<Rightarrow> int \<times> event list" where
  "read_crypt_magic os path pos tr =
     (case os_read os path pos 4 of
        None \<Rightarrow> (0, tr @ [Read path 4, Close path])
      | Some bs \<Rightarrow>
          if length bs \<noteq> 4 then (0, tr @ [Read path 4, Close path])
          else if le32 bs \<noteq> CRYPT_MAGIC then (0, tr @ [Read path 4, Close path])
          else (1, tr @ [Read path 4, Close path]))"

definition fs_mgr_is_partition_encrypted ::
  "headers \<Rightarrow> os \<Rightarrow> fstab_rec \<Rightarrow> fault + (int \<times> event list)" where
  "fs_mgr_is_partition_encrypted H os fstab =
     (if \<not> fs_mgr_is_encryptable fstab then Inr (0, [])
      else case key_loc fstab of
        None \<Rightarrow> Inl Null_deref
      | Some k \<Rightarrow>
          if (case k of [] \<Rightarrow> False | c # _ \<Rightarrow> c = CHR ''/'') then
            (if \<not> os_open os k then Inr (0, [Open k O_RDWR])
             else Inr (read_crypt_magic os k 0 [Open k O_RDWR]))
          else if k = CRYPT_KEY_IN_FOOTER then
            (let dev = blk_device fstab in
             if \<not> os_open os dev then Inr (0, [Open dev O_RDWR])
             else case os_blkgetsize os dev of
               None \<Rightarrow> Inr (0, [Open dev O_RDWR, Blkgetsize dev, Close dev])
             | Some sectors \<Rightarrow>
                 let offset = (ucast sectors :: 64 word) * 512 - scast (CRYPT_FOOTER_OFFSET H) in
                 if \<not> os_lseek64 os dev offset
                 then Inr (0, [Open dev O_RDWR, Blkgetsize dev, Lseek64 dev offset, Close dev])
                 else Inr (read_crypt_magic os dev offset
                             [Open dev O_RDWR, Blkgetsize dev, Lseek64 dev offset]))
          else Inr (0, []))"

section \<open>Recognising a file system\<close>

function is_f2fs_from :: "byte list \<Rightarrow> nat \<Rightarrow> fault + bool" where
  "is_f2fs_from block i =
     (if i < TOTAL_SECTORS then
        (case load block (i * 512) 4 of
           None \<Rightarrow> Inl Out_of_bounds
         | Some bs \<Rightarrow> if le32 bs = F2FS_SUPER_MAGIC then Inr True else is_f2fs_from block (i + 1))
      else Inr False)"
  by pat_completeness auto
termination
  by (relation "measure (\<lambda>(block, i). TOTAL_SECTORS - i)") auto

declare is_f2fs_from.simps [simp del]

definition is_f2fs :: "byte list \<Rightarrow> fault + bool" where
  "is_f2fs block = is_f2fs_from block 0"

text \<open>The loop of \<^verbatim>\<open>is_ext4\<close> steps \<open>i\<close> by the size of the superblock structure and
  \<open>sb\<close> with it, so \<open>sb\<close> is at byte \<open>i\<close> of the block. A C structure never has size 0;
  the model stops where the C loop would not advance.\<close>

function is_ext4_from :: "headers \<Rightarrow> byte list \<Rightarrow> nat \<Rightarrow> fault + bool" where
  "is_ext4_from H block i =
     (if i < TOTAL_SECTORS * 512 \<and> 0 < sizeof_ext4_super_block H then
        (case load block (i + offsetof_s_magic H) 2 of
           None \<Rightarrow> Inl Out_of_bounds
         | Some bs \<Rightarrow>
             if ucast (le16 bs) = EXT4_SUPER_MAGIC then Inr True
             else is_ext4_from H block (i + sizeof_ext4_super_block H))
      else Inr False)"
  by pat_completeness auto
termination
  by (relation "measure (\<lambda>(H, block, i). TOTAL_SECTORS * 512 - i)") auto

declare is_ext4_from.simps [simp del]

definition is_ext4 :: "headers \<Rightarrow> byte list \<Rightarrow> fault + bool" where
  "is_ext4 H block = is_ext4_from H block 0"

text \<open>The condition of \<^verbatim>\<open>fs_mgr_identify_fs\<close>, with the short-circuit evaluation of
  \<^verbatim>\<open>&&\<close> and \<^verbatim>\<open>||\<close>.\<close>

definition type_matches :: "headers \<Rightarrow> string \<Rightarrow> byte list \<Rightarrow> fault + bool" where
  "type_matches H ty block =
     (case (if strncmp_eq ty ''f2fs'' 4 then is_f2fs block else Inr False) of
        Inl f \<Rightarrow> Inl f
      | Inr True \<Rightarrow> Inr True
      | Inr False \<Rightarrow> (if strncmp_eq ty ''ext4'' 4 then is_ext4 H block else Inr False))"

text \<open>\<^verbatim>\<open>rc\<close> is a \<^verbatim>\<open>char\<close>: 0 when the type is recognised, -1 (all bits set) otherwise.\<close>

definition fs_mgr_identify_fs :: "headers \<Rightarrow> os \<Rightarrow> fstab_rec \<Rightarrow> fault + (byte \<times> event list)" where
  "fs_mgr_identify_fs H os fstab =
     (let dev = blk_device fstab in
      if \<not> os_calloc os then Inr (- 1, [])
      else if \<not> os_open os dev then Inr (- 1, [Open dev O_RDONLY])
      else case os_read os dev 0 (TOTAL_SECTORS * 512) of
        None \<Rightarrow> Inr (- 1, [Open dev O_RDONLY, Read dev (TOTAL_SECTORS * 512), Close dev])
      | Some block \<Rightarrow>
          if length block \<noteq> TOTAL_SECTORS * 512
          then Inr (- 1, [Open dev O_RDONLY, Read dev (TOTAL_SECTORS * 512), Close dev])
          else (case type_matches H (fs_type fstab) block of
            Inl f \<Rightarrow> Inl f
          | Inr m \<Rightarrow> Inr (if m then 0 else - 1,
                          [Open dev O_RDONLY, Read dev (TOTAL_SECTORS * 512), Close dev])))"

section \<open>Formatting\<close>

text \<open>The second half of \<^verbatim>\<open>format_ext4\<close>, from the first \<^verbatim>\<open>close(fd)\<close> on. The block
  size computed at the top of the C function is used nowhere and is not modelled.\<close>

definition build_ext4 :: "os \<Rightarrow> string \<Rightarrow> string \<Rightarrow> 32 word \<Rightarrow> event list \<Rightarrow> int \<times> event list" where
  "build_ext4 os fs_blkdev fs_mnt_point nr_sec tr =
     (let len = (ucast nr_sec :: 64 word) * 512;
          rc = os_make_ext4fs os len fs_mnt_point
      in (rc, tr @ [Close fs_blkdev, Reset_ext4fs_info, Make_ext4fs len fs_mnt_point,
                    Close fs_blkdev]))"

definition format_ext4 :: "headers \<Rightarrow> os \<Rightarrow> string \<Rightarrow> string \<Rightarrow> bool \<Rightarrow> int \<times> event list" where
  "format_ext4 H os fs_blkdev fs_mnt_point needs_footer =
     (if \<not> os_open os fs_blkdev then (- 1, [Open fs_blkdev O_RDWR])
      else case os_blkgetsize os fs_blkdev of
        None \<Rightarrow> (- 1, [Open fs_blkdev O_RDWR, Blkgetsize fs_blkdev, Close fs_blkdev])
      | Some nr_sec \<Rightarrow>
          let off = (ucast nr_sec :: 64 word) * 512 in
          if needs_footer then
            (let off = off - scast (CRYPT_FOOTER_OFFSET H);
                 crypt_ftr = replicate (sizeof_crypt_mnt_ftr H) (0 :: byte)
             in if \<not> os_lseek64 os fs_blkdev off
                then (- 1, [Open fs_blkdev O_RDWR, Blkgetsize fs_blkdev,
                            Lseek64 fs_blkdev off, Close fs_blkdev])
                else build_ext4 os fs_blkdev fs_mnt_point nr_sec
                       [Open fs_blkdev O_RDWR, Blkgetsize fs_blkdev, Lseek64 fs_blkdev off,
                        Write fs_blkdev crypt_ftr (os_write os fs_blkdev off crypt_ftr)])
          else build_ext4 os fs_blkdev fs_mnt_point nr_sec
                 [Open fs_blkdev O_RDWR, Blkgetsize fs_blkdev])"

text \<open>The \<^verbatim>\<open>for(;;)\<close> loop of \<^verbatim>\<open>format_f2fs\<close>: \<open>rc\<close> is the variable of that name, \<open>n\<close>
  counts the calls of \<^verbatim>\<open>waitpid\<close> made so far. The result is the final \<open>rc\<close> and the
  number of calls made; \<open>None\<close> is a loop that never ends.\<close>

partial_function (option) wait_loop ::
  "(nat \<Rightarrow> wait_outcome) \<Rightarrow> int \<Rightarrow> int \<Rightarrow> nat \<Rightarrow> (int \<times> nat) option" where
  "wait_loop ws pid rc n =
     (let p = waitpid_ret (ws n); rc = waitpid_status (ws n) rc in
      if p \<noteq> pid then Some (- 1, Suc n)
      else if WIFEXITED rc then
        (let rc = WEXITSTATUS rc in Some (if rc \<noteq> 0 then - 1 else rc, Suc n))
      else wait_loop ws pid rc (Suc n))"

text \<open>A call of \<^verbatim>\<open>format_f2fs\<close> either returns, or it is the child of the fork, which
  never returns from \<^verbatim>\<open>execv\<close> or leaves through \<^verbatim>\<open>exit(1)\<close>.\<close>

datatype ret = Returns int | Child_gone

definition format_f2fs :: "headers \<Rightarrow> os \<Rightarrow> string \<Rightarrow> bool \<Rightarrow> (ret \<times> event list) option" where
  "format_f2fs H os fs_blkdev needs_footer =
     (let footer = (if needs_footer then CRYPT_FOOTER_OFFSET H else 0);
          footer_size = snprintf_d 10 (sint footer);
          args = [''/sbin/mkfs.f2fs'', ''-r'', footer_size, fs_blkdev];
          pid = os_fork os
      in if pid = 0 then
           Some (Child_gone,
                 [Fork, Execv ''/sbin/mkfs.f2fs'' args] @ (if os_execv os then [] else [Exit 1]))
         else
           map_option (\<lambda>(rc, n). (Returns rc, Fork # replicate n (Waitpid pid)))
             (wait_loop (os_waitpid os) pid 0 0))"

definition fs_mgr_do_format :: "headers \<Rightarrow> os \<Rightarrow> fstab_rec \<Rightarrow> (ret \<times> event list) option" where
  "fs_mgr_do_format H os fstab =
     (let needs_footer = (case key_loc fstab of None \<Rightarrow> False | Some k \<Rightarrow> k = CRYPT_KEY_IN_FOOTER)
      in if strncmp_eq (fs_type fstab) ''f2fs'' 4 then
           format_f2fs H os (blk_device fstab) needs_footer
         else if strncmp_eq (fs_type fstab) ''ext4'' 4 then
           (case format_ext4 H os (blk_device fstab) (mount_point fstab) needs_footer of
              (rc, tr) \<Rightarrow> Some (Returns rc, tr))
         else Some (Returns (- EINVAL), []))"

section \<open>Example inputs\<close>

text \<open>Header values as on an Android build of the time: a footer offset of 16 KiB, an
  ext4 superblock structure of 1024 bytes with \<^verbatim>\<open>s_magic\<close> at byte 56; the size of the
  footer structure is an example.\<close>

definition example_headers :: headers where
  "example_headers =
     \<lparr>CRYPT_FOOTER_OFFSET = 0x4000, sizeof_crypt_mnt_ftr = 2048,
      sizeof_ext4_super_block = 1024, offsetof_s_magic = 56\<rparr>"

text \<open>An environment in which every request succeeds: a device of 2048 sectors that reads
  as zeros, a builder that returns 0, a child 1234 that exits with status 0.\<close>

definition example_os :: os where
  "example_os =
     \<lparr>os_calloc = True, os_open = (\<lambda>path. True), os_blkgetsize = (\<lambda>path. Some 2048),
      os_lseek64 = (\<lambda>path off. True), os_read = (\<lambda>path pos n. Some (replicate n 0)),
      os_write = (\<lambda>path pos bs. int (length bs)), os_make_ext4fs = (\<lambda>len mnt. 0),
      os_fork = 1234, os_execv = True, os_waitpid = (\<lambda>n. Reaped 1234 0)\<rparr>"

definition example_fstab :: fstab_rec where
  "example_fstab =
     \<lparr>blk_device = ''/dev/block/userdata'', mount_point = ''/data'', fs_type = ''ext4'',
      key_loc = Some ''footer'', encryptable = True\<rparr>"

section \<open>Properties\<close>

subsection \<open>Bytes and words\<close>

lemma le_bytes_bound: "le_bytes bs < 256 ^ length bs"
proof (induction bs)
  case Nil
  show ?case by simp
next
  case (Cons b bs)
  have "unat b < 256" using unsigned_less [of b] by simp
  with Cons show ?case by simp
qed

lemma le_bytes_inj: "length bs = length cs \<Longrightarrow> le_bytes bs = le_bytes cs \<Longrightarrow> bs = cs"
proof (induction bs arbitrary: cs)
  case Nil
  then show ?case by simp
next
  case (Cons b bs)
  then obtain c cs' where cs: "cs = c # cs'" by (cases cs) auto
  have b: "unat b < 256" and c: "unat c < 256"
    using unsigned_less [of b] unsigned_less [of c] by simp_all
  from Cons.prems cs have eq: "unat b + 256 * le_bytes bs = unat c + 256 * le_bytes cs'" by simp
  then have "(unat b + 256 * le_bytes bs) mod 256 = (unat c + 256 * le_bytes cs') mod 256"
    by simp
  with b c have bc: "unat b = unat c" by simp
  with eq have "le_bytes bs = le_bytes cs'" by simp
  with bc Cons cs show ?case by (simp add: word_unat_eq_iff)
qed

lemma le32_eq_iff:
  assumes "length bs = 4" "length cs = 4"
  shows "le32 bs = le32 cs \<longleftrightarrow> bs = cs"
proof -
  have "le_bytes bs < 2 ^ 32" "le_bytes cs < 2 ^ 32"
    using le_bytes_bound [of bs] le_bytes_bound [of cs] assms by simp_all
  then have "le32 bs = le32 cs \<longleftrightarrow> le_bytes bs = le_bytes cs"
    unfolding le32_def by (simp add: word_of_nat_eq_iff take_bit_nat_eq_self)
  with assms le_bytes_inj [of bs cs] show ?thesis by auto
qed

lemma CRYPT_MAGIC_bytes: "le32 [0xC4, 0xB1, 0xB5, 0xD0] = CRYPT_MAGIC"
  by (simp add: le32_def CRYPT_MAGIC_def)

lemma F2FS_SUPER_MAGIC_bytes: "le32 [0x10, 0x20, 0xF5, 0xF2] = F2FS_SUPER_MAGIC"
  by (simp add: le32_def F2FS_SUPER_MAGIC_def)

subsection \<open>The encryption marker\<close>

text \<open>C10. For an encryptable descriptor whose key location is a string that neither
  begins with a slash nor is \<open>footer\<close> (the empty string included),
  \<^verbatim>\<open>fs_mgr_is_partition_encrypted\<close> returns 0 and has asked nothing of the system: no
  open, no read.\<close>

theorem unlisted_key_loc_is_absent:
  assumes "fs_mgr_is_encryptable fstab"
    and "key_loc fstab = Some k"
    and "k = [] \<or> hd k \<noteq> CHR ''/''"
    and "k \<noteq> ''footer''"
  shows "fs_mgr_is_partition_encrypted H os fstab = Inr (0, [])"
  using assms
  by (cases k) (auto simp: fs_mgr_is_partition_encrypted_def CRYPT_KEY_IN_FOOTER_def)

theorem unlisted_key_loc_is_absent_witness:
  "fs_mgr_is_encryptable (example_fstab\<lparr>key_loc := Some ''unencrypted''\<rparr>) \<and>
   key_loc (example_fstab\<lparr>key_loc := Some ''unencrypted''\<rparr>) = Some ''unencrypted'' \<and>
   (''unencrypted'' = [] \<or> hd ''unencrypted'' \<noteq> CHR ''/'') \<and>
   ''unencrypted'' \<noteq> ''footer'' \<and>
   fs_mgr_is_partition_encrypted example_headers example_os
     (example_fstab\<lparr>key_loc := Some ''unencrypted''\<rparr>) = Inr (0, []) \<and>
   fs_mgr_is_partition_encrypted example_headers example_os
     (example_fstab\<lparr>key_loc := Some ''''\<rparr>) = Inr (0, [])"
  using unlisted_key_loc_is_absent
    [of "example_fstab\<lparr>key_loc := Some ''unencrypted''\<rparr>" "''unencrypted''"
      example_headers example_os]
    unlisted_key_loc_is_absent
    [of "example_fstab\<lparr>key_loc := Some ''''\<rparr>" "''''" example_headers example_os]
  by (simp add: fs_mgr_is_encryptable_def example_fstab_def)

lemma le32_CRYPT_MAGIC_iff:
  "length bs = 4 \<Longrightarrow> le32 bs = CRYPT_MAGIC \<longleftrightarrow> bs = [0xC4, 0xB1, 0xB5, 0xD0]"
  using le32_eq_iff [of bs "[0xC4, 0xB1, 0xB5, 0xD0]"] by (simp add: CRYPT_MAGIC_bytes)

lemma read_crypt_magic_fst:
  "fst (read_crypt_magic os path pos tr) =
     (if os_read os path pos 4 = Some [0xC4, 0xB1, 0xB5, 0xD0] then 1 else 0)"
  by (auto simp: read_crypt_magic_def le32_CRYPT_MAGIC_iff CRYPT_MAGIC_bytes split: option.splits)

text \<open>C5. With a key location that is a string, \<^verbatim>\<open>fs_mgr_is_partition_encrypted\<close>
  always returns 0 or 1, never an error value, and it returns 1 exactly when the partition
  is encryptable, the place to look at could be reached (the key file opened; or, for
  \<open>footer\<close>, the block device opened, its size obtained and the seek to
  \<open>sectors * 512 - CRYPT_FOOTER_OFFSET\<close> done) and the read there delivered exactly the
  four bytes C4 B1 B5 D0, the magic 0xD0B5B1C4 in memory order. Every failed open, size
  query, seek or read and every other value gives 0.\<close>

theorem crypt_marker_iff:
  assumes "key_loc fstab = Some k"
  shows "\<exists>r tr. fs_mgr_is_partition_encrypted H os fstab = Inr (r, tr) \<and> (r = 0 \<or> r = 1) \<and>
     (r = 1 \<longleftrightarrow>
        fs_mgr_is_encryptable fstab \<and>
        ((\<exists>t. k = CHR ''/'' # t) \<and> os_open os k \<and>
           os_read os k 0 4 = Some [0xC4, 0xB1, 0xB5, 0xD0]
         \<or> k = ''footer'' \<and> os_open os (blk_device fstab) \<and>
           (\<exists>sectors. os_blkgetsize os (blk_device fstab) = Some sectors \<and>
              os_lseek64 os (blk_device fstab)
                (ucast sectors * 512 - scast (CRYPT_FOOTER_OFFSET H)) \<and>
              os_read os (blk_device fstab)
                (ucast sectors * 512 - scast (CRYPT_FOOTER_OFFSET H)) 4
                = Some [0xC4, 0xB1, 0xB5, 0xD0])))"
proof (cases "fs_mgr_is_encryptable fstab")
  case False
  then show ?thesis by (simp add: fs_mgr_is_partition_encrypted_def)
next
  case enc: True
  show ?thesis
  proof (cases "\<exists>t. k = CHR ''/'' # t")
    case True
    then obtain t where k: "k = CHR ''/'' # t" by blast
    obtain r tr where rc: "read_crypt_magic os k 0 [Open k O_RDWR] = (r, tr)"
      by (cases "read_crypt_magic os k 0 [Open k O_RDWR]")
    with read_crypt_magic_fst [of os k 0 "[Open k O_RDWR]"]
    have r: "r = (if os_read os k 0 4 = Some [0xC4, 0xB1, 0xB5, 0xD0] then 1 else 0)" by simp
    show ?thesis
    proof (cases "os_open os k")
      case True
      with enc assms k rc r show ?thesis
        by (simp add: fs_mgr_is_partition_encrypted_def)
    next
      case False
      with enc assms k show ?thesis
        by (simp add: fs_mgr_is_partition_encrypted_def)
    qed
  next
    case nslash: False
    then have ns: "\<not> (case k of [] \<Rightarrow> False | c # _ \<Rightarrow> c = CHR ''/'')"
      by (cases k) auto
    show ?thesis
    proof (cases "k = ''footer''")
      case False
      with enc assms ns nslash show ?thesis
        by (simp add: fs_mgr_is_partition_encrypted_def CRYPT_KEY_IN_FOOTER_def)
    next
      case foot: True
      let ?dev = "blk_device fstab"
      show ?thesis
      proof (cases "os_open os ?dev")
        case False
        with enc assms ns nslash foot show ?thesis
          by (simp add: fs_mgr_is_partition_encrypted_def CRYPT_KEY_IN_FOOTER_def)
      next
        case op: True
        show ?thesis
        proof (cases "os_blkgetsize os ?dev")
          case None
          with enc assms ns nslash foot op show ?thesis
            by (simp add: fs_mgr_is_partition_encrypted_def CRYPT_KEY_IN_FOOTER_def Let_def)
        next
          case (Some sectors)
          let ?off = "(ucast sectors :: 64 word) * 512 - scast (CRYPT_FOOTER_OFFSET H)"
          let ?tr = "[Open ?dev O_RDWR, Blkgetsize ?dev, Lseek64 ?dev ?off]"
          obtain r tr where rc: "read_crypt_magic os ?dev ?off ?tr = (r, tr)"
            by (cases "read_crypt_magic os ?dev ?off ?tr")
          with read_crypt_magic_fst [of os ?dev ?off ?tr]
          have r: "r = (if os_read os ?dev ?off 4 = Some [0xC4, 0xB1, 0xB5, 0xD0] then 1 else 0)"
            by simp
          show ?thesis
          proof (cases "os_lseek64 os ?dev ?off")
            case True
            with enc assms ns nslash foot op Some rc r show ?thesis
              by (simp add: fs_mgr_is_partition_encrypted_def CRYPT_KEY_IN_FOOTER_def Let_def)
          next
            case False
            with enc assms ns nslash foot op Some show ?thesis
              by (simp add: fs_mgr_is_partition_encrypted_def CRYPT_KEY_IN_FOOTER_def Let_def)
          qed
        qed
      qed
    qed
  qed
qed

theorem crypt_marker_iff_witness:
  "key_loc example_fstab = Some ''footer'' \<and>
   (\<exists>tr. fs_mgr_is_partition_encrypted example_headers
      (example_os\<lparr>os_read := \<lambda>path pos n. Some [0xC4, 0xB1, 0xB5, 0xD0]\<rparr>) example_fstab
      = Inr (1, tr))"
  using crypt_marker_iff [of example_fstab "''footer''" example_headers
      "example_os\<lparr>os_read := \<lambda>path pos n. Some [0xC4, 0xB1, 0xB5, 0xD0]\<rparr>"]
  by (auto simp: example_fstab_def example_os_def fs_mgr_is_encryptable_def)

subsection \<open>Recognising a file system\<close>

lemma le32_F2FS_SUPER_MAGIC_iff:
  "length bs = 4 \<Longrightarrow> le32 bs = F2FS_SUPER_MAGIC \<longleftrightarrow> bs = [0x10, 0x20, 0xF5, 0xF2]"
  using le32_eq_iff [of bs "[0x10, 0x20, 0xF5, 0xF2]"] by (simp add: F2FS_SUPER_MAGIC_bytes)

lemma load_in_range:
  "off + n \<le> length block \<Longrightarrow> load block off n = Some (take n (drop off block))"
  by (simp add: load_def)

lemma is_f2fs_from_iff:
  "length block = 8192 \<Longrightarrow>
   is_f2fs_from block i =
     Inr (\<exists>j. i \<le> j \<and> j < 16 \<and> take 4 (drop (j * 512) block) = [0x10, 0x20, 0xF5, 0xF2])"
proof (induction block i rule: is_f2fs_from.induct)
  case (1 block i)
  note len = "1.prems"
  show ?case
  proof (cases "i < 16")
    case False
    then show ?thesis by (subst is_f2fs_from.simps) (auto simp: TOTAL_SECTORS_def)
  next
    case less: True
    let ?bs = "take 4 (drop (i * 512) block)"
    have ld: "load block (i * 512) 4 = Some ?bs"
      using less len by (simp add: load_in_range)
    have l4: "length ?bs = 4" using less len by simp
    show ?thesis
    proof (cases "?bs = [0x10, 0x20, 0xF5, 0xF2]")
      case True
      then have "le32 ?bs = F2FS_SUPER_MAGIC" by (simp only: F2FS_SUPER_MAGIC_bytes)
      then have "is_f2fs_from block i = Inr True"
        using less ld by (subst is_f2fs_from.simps) (simp add: TOTAL_SECTORS_def)
      moreover have "\<exists>j. i \<le> j \<and> j < 16 \<and> take 4 (drop (j * 512) block) = [0x10, 0x20, 0xF5, 0xF2]"
        using less True by blast
      ultimately show ?thesis by simp
    next
      case False
      then have ne: "le32 ?bs \<noteq> F2FS_SUPER_MAGIC"
        using l4 le32_F2FS_SUPER_MAGIC_iff [of ?bs] by simp
      have lt: "i < TOTAL_SECTORS" using less by (simp add: TOTAL_SECTORS_def)
      have IH: "is_f2fs_from block (i + 1) =
          Inr (\<exists>j. i + 1 \<le> j \<and> j < 16 \<and> take 4 (drop (j * 512) block) = [0x10, 0x20, 0xF5, 0xF2])"
        by (rule "1.IH" [OF lt ld ne len])
      have step: "is_f2fs_from block i = is_f2fs_from block (i + 1)"
        using lt ld ne by (subst is_f2fs_from.simps) simp
      have "(\<exists>j. i \<le> j \<and> j < 16 \<and> take 4 (drop (j * 512) block) = [0x10, 0x20, 0xF5, 0xF2])
         \<longleftrightarrow> (\<exists>j. i + 1 \<le> j \<and> j < 16 \<and> take 4 (drop (j * 512) block) = [0x10, 0x20, 0xF5, 0xF2])"
        (is "?L \<longleftrightarrow> ?R")
      proof
        assume ?L
        then obtain j where j: "i \<le> j" "j < 16"
          "take 4 (drop (j * 512) block) = [0x10, 0x20, 0xF5, 0xF2]" by blast
        with False have "j \<noteq> i" by auto
        with j show ?R by (intro exI [of _ j]) simp
      next
        assume ?R
        then show ?L by (metis add_leD1)
      qed
      with step IH show ?thesis by simp
    qed
  qed
qed

lemma strncmp_f2fs: "strncmp_eq ''f2fs'' ''f2fs'' 4" "\<not> strncmp_eq ''f2fs'' ''ext4'' 4"
   "strncmp_eq ''ext4'' ''ext4'' 4" "\<not> strncmp_eq ''ext4'' ''f2fs'' 4"
  by (simp_all add: numeral_eq_Suc)

text \<open>C3. When the first 8192 bytes of the device have been read and the declared type is
  \<open>f2fs\<close>, \<^verbatim>\<open>fs_mgr_identify_fs\<close> reports a match (returns 0) exactly when one of the
  sixteen 512-byte sectors starts with the bytes 10 20 F5 F2, the little-endian form of
  0xF2F52010.\<close>

theorem identify_f2fs_iff:
  assumes "os_calloc os" and "os_open os (blk_device fstab)"
    and "os_read os (blk_device fstab) 0 8192 = Some block"
    and "length block = 8192"
    and "fs_type fstab = ''f2fs''"
  shows "\<exists>r tr. fs_mgr_identify_fs H os fstab = Inr (r, tr) \<and>
           (r = 0 \<longleftrightarrow>
              (\<exists>i. i < 16 \<and> take 4 (drop (i * 512) block) = [0x10, 0x20, 0xF5, 0xF2]))"
proof -
  have "type_matches H ''f2fs'' block =
      Inr (\<exists>i. i < 16 \<and> take 4 (drop (i * 512) block) = [0x10, 0x20, 0xF5, 0xF2])"
    using is_f2fs_from_iff [OF assms(4), of 0]
    by (simp add: type_matches_def is_f2fs_def strncmp_f2fs split: bool.splits)
  with assms show ?thesis
    by (auto simp: fs_mgr_identify_fs_def TOTAL_SECTORS_def Let_def)
qed

theorem identify_f2fs_iff_witness:
  "os_calloc (example_os\<lparr>os_read := \<lambda>path pos n.
       Some (replicate 1024 0 @ [0x10, 0x20, 0xF5, 0xF2] @ replicate 7164 0)\<rparr>) \<and>
   os_open (example_os\<lparr>os_read := \<lambda>path pos n.
       Some (replicate 1024 0 @ [0x10, 0x20, 0xF5, 0xF2] @ replicate 7164 0)\<rparr>)
     (blk_device (example_fstab\<lparr>fs_type := ''f2fs''\<rparr>)) \<and>
   os_read (example_os\<lparr>os_read := \<lambda>path pos n.
       Some (replicate 1024 0 @ [0x10, 0x20, 0xF5, 0xF2] @ replicate 7164 0)\<rparr>)
     (blk_device (example_fstab\<lparr>fs_type := ''f2fs''\<rparr>)) 0 8192
     = Some (replicate 1024 0 @ [0x10, 0x20, 0xF5, 0xF2] @ replicate 7164 0) \<and>
   length (replicate 1024 (0 :: byte) @ [0x10, 0x20, 0xF5, 0xF2] @ replicate 7164 0) = 8192 \<and>
   fs_type (example_fstab\<lparr>fs_type := ''f2fs''\<rparr>) = ''f2fs'' \<and>
   (\<exists>tr. fs_mgr_identify_fs example_headers
      (example_os\<lparr>os_read := \<lambda>path pos n.
         Some (replicate 1024 0 @ [0x10, 0x20, 0xF5, 0xF2] @ replicate 7164 0)\<rparr>)
      (example_fstab\<lparr>fs_type := ''f2fs''\<rparr>) = Inr (0, tr))"
proof -
  let ?block = "replicate 1024 (0 :: byte) @ [0x10, 0x20, 0xF5, 0xF2] @ replicate 7164 0"
  let ?os = "example_os\<lparr>os_read := \<lambda>path pos n. Some ?block\<rparr>"
  let ?fstab = "example_fstab\<lparr>fs_type := ''f2fs''\<rparr>"
  have h1: "os_calloc ?os" and h2: "os_open ?os (blk_device ?fstab)"
    and h3: "os_read ?os (blk_device ?fstab) 0 8192 = Some ?block"
    and h4: "length ?block = 8192" and h5: "fs_type ?fstab = ''f2fs''"
    by (simp_all add: example_os_def)
  have hit: "\<exists>i. i < 16 \<and> take 4 (drop (i * 512) ?block) = [0x10, 0x20, 0xF5, 0xF2]"
    by (rule exI [of _ 2]) simp
  from identify_f2fs_iff [OF h1 h2 h3 h4 h5, of example_headers] hit
  have "\<exists>tr. fs_mgr_identify_fs example_headers ?os ?fstab = Inr (0, tr)" by auto
  with h1 h2 h3 h4 h5 show ?thesis by blast
qed

lemma le16_EXT4_SUPER_MAGIC_iff:
  assumes "length bs = 2"
  shows "(ucast (le16 bs) :: 32 word) = EXT4_SUPER_MAGIC \<longleftrightarrow> bs = [0x53, 0xEF]"
proof -
  have b: "le_bytes bs < 2 ^ 16" using le_bytes_bound [of bs] assms by simp
  have "(ucast (le16 bs) :: 32 word) = of_nat (le_bytes bs)"
    unfolding le16_def using b by (simp add: unsigned_of_nat take_bit_nat_eq_self)
  moreover have b32: "le_bytes bs < 2 ^ 32" using b by simp
  moreover have "(of_nat (le_bytes bs) :: 32 word) = of_nat 0xEF53 \<longleftrightarrow> le_bytes bs = 0xEF53"
    using b32 by (simp only: word_of_nat_eq_iff) (simp add: take_bit_nat_eq_self)
  ultimately have "(ucast (le16 bs) :: 32 word) = EXT4_SUPER_MAGIC \<longleftrightarrow> le_bytes bs = 0xEF53"
    unfolding EXT4_SUPER_MAGIC_def by simp
  also have "\<dots> \<longleftrightarrow> le_bytes bs = le_bytes [0x53, 0xEF]" by simp
  also have "\<dots> \<longleftrightarrow> bs = [0x53, 0xEF]"
    using le_bytes_inj [of bs "[0x53, 0xEF]"] assms by auto
  finally show ?thesis .
qed

lemma next_struct_fits:
  fixes S :: nat
  assumes "S dvd i" "S dvd 8192" "i < 8192"
  shows "i + S \<le> 8192"
proof -
  have "S dvd 8192 - i" using assms by (simp add: dvd_diff_nat)
  moreover have "0 < 8192 - i" using assms by simp
  ultimately have "S \<le> 8192 - i" by (rule dvd_imp_le)
  with assms show ?thesis by simp
qed

lemma is_ext4_from_iff:
  "0 < sizeof_ext4_super_block H \<Longrightarrow>
   offsetof_s_magic H + 2 \<le> sizeof_ext4_super_block H \<Longrightarrow>
   sizeof_ext4_super_block H dvd 8192 \<Longrightarrow>
   length block = 8192 \<Longrightarrow>
   sizeof_ext4_super_block H dvd i \<Longrightarrow>
   is_ext4_from H block i =
     Inr (\<exists>k. i + k * sizeof_ext4_super_block H < 8192 \<and>
              take 2 (drop (i + k * sizeof_ext4_super_block H + offsetof_s_magic H) block)
                = [0x53, 0xEF])"
proof (induction H block i rule: is_ext4_from.induct)
  case (1 H block i)
  let ?S = "sizeof_ext4_super_block H" and ?M = "offsetof_s_magic H"
  let ?hit = "\<lambda>j. take 2 (drop (j + ?M) block) = [0x53, 0xEF]"
  note pos = "1.prems"(1) and fits = "1.prems"(2) and dv = "1.prems"(3)
    and len = "1.prems"(4) and dvi = "1.prems"(5)
  show ?case
  proof (cases "i < 8192")
    case False
    then have "is_ext4_from H block i = Inr False"
      by (subst is_ext4_from.simps) (simp add: TOTAL_SECTORS_def)
    moreover have "\<not> (\<exists>k. i + k * ?S < 8192 \<and> ?hit (i + k * ?S))" using False by simp
    ultimately show ?thesis by simp
  next
    case less: True
    have cond: "i < TOTAL_SECTORS * 512 \<and> 0 < ?S" using less pos by (simp add: TOTAL_SECTORS_def)
    let ?bs = "take 2 (drop (i + ?M) block)"
    have inr: "i + ?M + 2 \<le> length block"
      using next_struct_fits [OF dvi dv less] fits len by simp
    then have ld: "load block (i + ?M) 2 = Some ?bs" by (simp add: load_def)
    have l2: "length ?bs = 2" using inr by simp
    show ?thesis
    proof (cases "?bs = [0x53, 0xEF]")
      case True
      then have "ucast (le16 ?bs) = EXT4_SUPER_MAGIC"
        using le16_EXT4_SUPER_MAGIC_iff [OF l2] by simp
      then have "is_ext4_from H block i = Inr True"
        using cond ld by (subst is_ext4_from.simps) simp
      moreover have "\<exists>k. i + k * ?S < 8192 \<and> ?hit (i + k * ?S)"
        using less True by (intro exI [of _ 0]) simp
      ultimately show ?thesis by simp
    next
      case False
      then have ne: "ucast (le16 ?bs) \<noteq> EXT4_SUPER_MAGIC"
        using le16_EXT4_SUPER_MAGIC_iff [OF l2] by simp
      have dvn: "?S dvd i + ?S" using dvi by simp
      have IH: "is_ext4_from H block (i + ?S) =
          Inr (\<exists>k. i + ?S + k * ?S < 8192 \<and> ?hit (i + ?S + k * ?S))"
        by (rule "1.IH" [OF cond ld ne pos fits dv len dvn])
      have step: "is_ext4_from H block i = is_ext4_from H block (i + ?S)"
        using cond ld ne by (subst is_ext4_from.simps) simp
      have "(\<exists>k. i + k * ?S < 8192 \<and> ?hit (i + k * ?S))
         \<longleftrightarrow> (\<exists>k. i + ?S + k * ?S < 8192 \<and> ?hit (i + ?S + k * ?S))" (is "?L \<longleftrightarrow> ?R")
      proof
        assume ?L
        then obtain k where k: "i + k * ?S < 8192" "?hit (i + k * ?S)" by blast
        with False have "k \<noteq> 0" by (cases k) auto
        then obtain k' where "k = Suc k'" by (cases k) auto
        with k have "i + ?S + k' * ?S < 8192 \<and> ?hit (i + ?S + k' * ?S)"
          by (simp add: add.assoc)
        then show ?R by blast
      next
        assume ?R
        then obtain k where k: "i + ?S + k * ?S < 8192" "?hit (i + ?S + k * ?S)" by blast
        then have "i + Suc k * ?S < 8192 \<and> ?hit (i + Suc k * ?S)"
          by (simp add: add.assoc)
        then show ?L by blast
      qed
      with step IH show ?thesis by simp
    qed
  qed
qed

text \<open>C4. When the first 8192 bytes of the device have been read and the declared type is
  \<open>ext4\<close>, \<^verbatim>\<open>fs_mgr_identify_fs\<close> reports a match (returns 0) exactly when, at one of the
  superblock structures laid end to end from the start of the block and beginning inside
  it, the two bytes of the \<^verbatim>\<open>s_magic\<close> field are 53 EF, the little-endian form of 0xEF53.
  The structure's size and the offset of the field come from \<^verbatim>\<open>ext4.h\<close>; the structure
  is taken to hold the field and to tile the 8192 bytes, as the 1024-byte superblock
  does.\<close>

theorem identify_ext4_iff:
  assumes "os_calloc os" and "os_open os (blk_device fstab)"
    and "os_read os (blk_device fstab) 0 8192 = Some block"
    and "length block = 8192"
    and "fs_type fstab = ''ext4''"
    and "0 < sizeof_ext4_super_block H"
    and "offsetof_s_magic H + 2 \<le> sizeof_ext4_super_block H"
    and "sizeof_ext4_super_block H dvd 8192"
  shows "\<exists>r tr. fs_mgr_identify_fs H os fstab = Inr (r, tr) \<and>
           (r = 0 \<longleftrightarrow>
              (\<exists>k. k * sizeof_ext4_super_block H < 8192 \<and>
                 take 2 (drop (k * sizeof_ext4_super_block H + offsetof_s_magic H) block)
                   = [0x53, 0xEF]))"
proof -
  have "type_matches H ''ext4'' block =
      Inr (\<exists>k. k * sizeof_ext4_super_block H < 8192 \<and>
                 take 2 (drop (k * sizeof_ext4_super_block H + offsetof_s_magic H) block)
                   = [0x53, 0xEF])"
    using is_ext4_from_iff [OF assms(6) assms(7) assms(8) assms(4), of 0]
    by (simp add: type_matches_def is_ext4_def strncmp_f2fs split: bool.splits)
  with assms(1-5) show ?thesis
    by (auto simp: fs_mgr_identify_fs_def TOTAL_SECTORS_def Let_def)
qed

theorem identify_ext4_iff_witness:
  "os_calloc (example_os\<lparr>os_read := \<lambda>path pos n.
       Some (replicate 1080 0 @ [0x53, 0xEF] @ replicate 7110 0)\<rparr>) \<and>
   os_open (example_os\<lparr>os_read := \<lambda>path pos n.
       Some (replicate 1080 0 @ [0x53, 0xEF] @ replicate 7110 0)\<rparr>)
     (blk_device example_fstab) \<and>
   os_read (example_os\<lparr>os_read := \<lambda>path pos n.
       Some (replicate 1080 0 @ [0x53, 0xEF] @ replicate 7110 0)\<rparr>)
     (blk_device example_fstab) 0 8192
     = Some (replicate 1080 0 @ [0x53, 0xEF] @ replicate 7110 0) \<and>
   length (replicate 1080 (0 :: byte) @ [0x53, 0xEF] @ replicate 7110 0) = 8192 \<and>
   fs_type example_fstab = ''ext4'' \<and>
   0 < sizeof_ext4_super_block example_headers \<and>
   offsetof_s_magic example_headers + 2 \<le> sizeof_ext4_super_block example_headers \<and>
   sizeof_ext4_super_block example_headers dvd 8192 \<and>
   (\<exists>tr. fs_mgr_identify_fs example_headers
      (example_os\<lparr>os_read := \<lambda>path pos n.
         Some (replicate 1080 0 @ [0x53, 0xEF] @ replicate 7110 0)\<rparr>)
      example_fstab = Inr (0, tr))"
proof -
  let ?block = "replicate 1080 (0 :: byte) @ [0x53, 0xEF] @ replicate 7110 0"
  let ?os = "example_os\<lparr>os_read := \<lambda>path pos n. Some ?block\<rparr>"
  have h1: "os_calloc ?os" and h2: "os_open ?os (blk_device example_fstab)"
    and h3: "os_read ?os (blk_device example_fstab) 0 8192 = Some ?block"
    and h4: "length ?block = 8192" and h5: "fs_type example_fstab = ''ext4''"
    and h6: "0 < sizeof_ext4_super_block example_headers"
    and h7: "offsetof_s_magic example_headers + 2 \<le> sizeof_ext4_super_block example_headers"
    and h8: "sizeof_ext4_super_block example_headers dvd 8192"
    by (simp_all add: example_os_def example_fstab_def example_headers_def)
  have hit: "\<exists>k. k * sizeof_ext4_super_block example_headers < 8192 \<and>
      take 2 (drop (k * sizeof_ext4_super_block example_headers + offsetof_s_magic example_headers)
        ?block) = [0x53, 0xEF]"
    by (rule exI [of _ 1]) (simp add: example_headers_def)
  from identify_ext4_iff [OF h1 h2 h3 h4 h5 h6 h7 h8] hit
  have "\<exists>tr. fs_mgr_identify_fs example_headers ?os example_fstab = Inr (0, tr)" by auto
  with h1 h2 h3 h4 h5 h6 h7 h8 show ?thesis by blast
qed

subsection \<open>Formatting\<close>

lemma strncmp_eq_take: "strncmp_eq a b n \<longleftrightarrow> take n a = take n b"
  by (induction a b n rule: strncmp_eq.induct) auto

lemma strncmp_eq_literal4:
  "strncmp_eq ty ''f2fs'' 4 \<longleftrightarrow> take 4 ty = ''f2fs''"
  "strncmp_eq ty ''ext4'' 4 \<longleftrightarrow> take 4 ty = ''ext4''"
  by (simp_all add: strncmp_eq_take)

text \<open>The decimal rendering fits the ten-byte buffer when the number has at most nine
  digits.\<close>

lemma length_string_of_nat: "n < 10 ^ Suc k \<Longrightarrow> length (string_of_nat n) \<le> Suc k"
proof (induction k arbitrary: n)
  case 0
  then show ?case by (subst string_of_nat.simps) simp
next
  case (Suc k)
  show ?case
  proof (cases "n < 10")
    case True
    then show ?thesis by (subst string_of_nat.simps) simp
  next
    case False
    from Suc.prems have "n div 10 < 10 ^ Suc k" by simp
    then have "length (string_of_nat (n div 10)) \<le> Suc k" by (rule Suc.IH)
    with False show ?thesis by (subst string_of_nat.simps) simp
  qed
qed

lemma snprintf_d_small:
  assumes "0 \<le> v" "v < 10 ^ 9"
  shows "snprintf_d 10 v = string_of_nat (nat v)"
proof -
  have "nat v < 10 ^ Suc 8" using assms by (simp add: nat_less_iff)
  then have "length (string_of_nat (nat v)) \<le> 9"
    using length_string_of_nat [of "nat v" 8] by simp
  with assms show ?thesis by (simp add: snprintf_d_def string_of_int_def)
qed

lemma string_of_nat_0: "string_of_nat 0 = ''0''"
  by (subst string_of_nat.simps) simp

text \<open>One round of the wait loop: a wait that does not return the child's pid, a wait
  that reports an exit, and the only case in which the loop goes round again.\<close>

lemma wait_loop_mismatch:
  "waitpid_ret (ws n) \<noteq> pid \<Longrightarrow> wait_loop ws pid rc n = Some (- 1, Suc n)"
  by (subst wait_loop.simps) (simp add: Let_def)

lemma wait_loop_exited:
  "waitpid_ret (ws n) = pid \<Longrightarrow> WIFEXITED (waitpid_status (ws n) rc) \<Longrightarrow>
   wait_loop ws pid rc n =
     Some (if WEXITSTATUS (waitpid_status (ws n) rc) \<noteq> 0 then - 1 else 0, Suc n)"
  by (subst wait_loop.simps) (simp add: Let_def)

lemma wait_loop_again:
  "waitpid_ret (ws n) = pid \<Longrightarrow> \<not> WIFEXITED (waitpid_status (ws n) rc) \<Longrightarrow>
   wait_loop ws pid rc n = wait_loop ws pid (waitpid_status (ws n) rc) (Suc n)"
  by (subst wait_loop.simps) (simp add: Let_def)

lemma wait_loop_range:
  "wait_loop ws pid rc n = Some res \<Longrightarrow> fst res = 0 \<or> fst res = - 1"
proof (induction rule: wait_loop.raw_induct [rotated 1, consumes 1])
  case (1 wait_loop' ws pid rc n res)
  from "1.hyps" show ?case
    by (auto simp: Let_def "1.IH" split: if_splits)
qed

text \<open>Whenever \<^verbatim>\<open>format_ext4\<close> reaches the builder, \<^verbatim>\<open>info.len\<close> is the length of the
  whole device, with or without a footer; and a failed seek to the footer ends the call
  before the builder.\<close>

lemma format_ext4_builder_length:
  assumes "os_open os dev" and "os_blkgetsize os dev = Some nr_sec"
    and "needs_footer \<longrightarrow>
           os_lseek64 os dev ((ucast nr_sec :: 64 word) * 512 - scast (CRYPT_FOOTER_OFFSET H))"
  shows "filter ext4_builder (snd (format_ext4 H os dev mnt needs_footer)) =
           [Reset_ext4fs_info, Make_ext4fs (ucast nr_sec * 512) mnt]"
  using assms by (simp add: format_ext4_def build_ext4_def Let_def)

lemma failed_footer_seek_aborts:
  assumes "os_open os dev" and "os_blkgetsize os dev = Some nr_sec"
    and "\<not> os_lseek64 os dev ((ucast nr_sec :: 64 word) * 512 - scast (CRYPT_FOOTER_OFFSET H))"
  shows "format_ext4 H os dev mnt True =
           (- 1, [Open dev O_RDWR, Blkgetsize dev,
                  Lseek64 dev (ucast nr_sec * 512 - scast (CRYPT_FOOTER_OFFSET H)), Close dev])"
  using assms by (simp add: format_ext4_def Let_def)

lemma format_ext4_no_subprocess:
  "list_all (\<lambda>e. \<not> f2fs_subprocess e) (snd (format_ext4 H os dev mnt nf))"
  by (simp add: format_ext4_def build_ext4_def Let_def split: option.splits)

lemma format_f2fs_no_builder:
  assumes "format_f2fs H os dev nf = Some (r, tr)"
  shows "list_all (\<lambda>e. \<not> ext4_builder e \<and> \<not> device_io e) tr"
proof (cases "os_fork os = 0")
  case True
  with assms show ?thesis by (auto simp: format_f2fs_def Let_def)
next
  case False
  with assms obtain rc n where "tr = Fork # replicate n (Waitpid (os_fork os))"
    by (auto simp: format_f2fs_def Let_def)
  then show ?thesis by (simp add: list_all_iff)
qed

text \<open>C6. \<^verbatim>\<open>fs_mgr_do_format\<close> looks at the first four characters of the declared type
  only. When they are \<open>f2fs\<close> the call is the call of \<^verbatim>\<open>format_f2fs\<close> and no event
  of the ext4 library occurs; when they are \<open>ext4\<close> the call returns what
  \<^verbatim>\<open>format_ext4\<close> returns and no fork, exec or wait occurs; in every other case the
  call returns \<^verbatim>\<open>-EINVAL\<close> with no event at all: the device is not opened and nothing is
  read or written.\<close>

theorem do_format_dispatch:
  "(take 4 (fs_type fstab) = ''f2fs'' \<longrightarrow>
      fs_mgr_do_format H os fstab =
        format_f2fs H os (blk_device fstab) (key_loc fstab = Some ''footer'') \<and>
      (\<forall>r tr. fs_mgr_do_format H os fstab = Some (r, tr) \<longrightarrow>
         list_all (\<lambda>e. \<not> ext4_builder e) tr)) \<and>
   (take 4 (fs_type fstab) = ''ext4'' \<longrightarrow>
      (\<exists>rc tr. fs_mgr_do_format H os fstab = Some (Returns rc, tr) \<and>
         (rc, tr) = format_ext4 H os (blk_device fstab) (mount_point fstab)
                      (key_loc fstab = Some ''footer'') \<and>
         list_all (\<lambda>e. \<not> f2fs_subprocess e) tr)) \<and>
   (take 4 (fs_type fstab) \<noteq> ''f2fs'' \<and> take 4 (fs_type fstab) \<noteq> ''ext4'' \<longrightarrow>
      fs_mgr_do_format H os fstab = Some (Returns (- EINVAL), []))"
proof (intro conjI impI)
  assume ty: "take 4 (fs_type fstab) = ''f2fs''"
  have nf: "(case key_loc fstab of None \<Rightarrow> False | Some k \<Rightarrow> k = CRYPT_KEY_IN_FOOTER)
      = (key_loc fstab = Some ''footer'')"
    by (auto simp: CRYPT_KEY_IN_FOOTER_def split: option.splits)
  show eq: "fs_mgr_do_format H os fstab =
      format_f2fs H os (blk_device fstab) (key_loc fstab = Some ''footer'')"
    using ty by (simp add: fs_mgr_do_format_def strncmp_eq_literal4 nf)
  show "\<forall>r tr. fs_mgr_do_format H os fstab = Some (r, tr) \<longrightarrow>
         list_all (\<lambda>e. \<not> ext4_builder e) tr"
    using format_f2fs_no_builder [of H os "blk_device fstab" "key_loc fstab = Some ''footer''"]
    by (auto simp: eq list_all_iff)
next
  assume ty: "take 4 (fs_type fstab) = ''ext4''"
  have nf: "(case key_loc fstab of None \<Rightarrow> False | Some k \<Rightarrow> k = CRYPT_KEY_IN_FOOTER)
      = (key_loc fstab = Some ''footer'')"
    by (auto simp: CRYPT_KEY_IN_FOOTER_def split: option.splits)
  obtain rc tr where f: "format_ext4 H os (blk_device fstab) (mount_point fstab)
                      (key_loc fstab = Some ''footer'') = (rc, tr)"
    by (cases "format_ext4 H os (blk_device fstab) (mount_point fstab)
                      (key_loc fstab = Some ''footer'')")
  have "fs_mgr_do_format H os fstab = Some (Returns rc, tr)"
    using ty f by (simp add: fs_mgr_do_format_def strncmp_eq_literal4 nf)
  moreover have "list_all (\<lambda>e. \<not> f2fs_subprocess e) tr"
    using format_ext4_no_subprocess [of H os "blk_device fstab" "mount_point fstab"
        "key_loc fstab = Some ''footer''"] f by simp
  ultimately show "\<exists>rc tr. fs_mgr_do_format H os fstab = Some (Returns rc, tr) \<and>
         (rc, tr) = format_ext4 H os (blk_device fstab) (mount_point fstab)
                      (key_loc fstab = Some ''footer'') \<and>
         list_all (\<lambda>e. \<not> f2fs_subprocess e) tr"
    using f by simp
next
  assume "take 4 (fs_type fstab) \<noteq> ''f2fs'' \<and> take 4 (fs_type fstab) \<noteq> ''ext4''"
  then show "fs_mgr_do_format H os fstab = Some (Returns (- EINVAL), [])"
    by (simp add: fs_mgr_do_format_def strncmp_eq_literal4 EINVAL_def)
qed

theorem do_format_dispatch_witness:
  "take 4 (fs_type (example_fstab\<lparr>fs_type := ''f2fs''\<rparr>)) = ''f2fs'' \<and>
   fs_mgr_do_format example_headers example_os (example_fstab\<lparr>fs_type := ''f2fs''\<rparr>) =
     Some (Returns 0, [Fork, Waitpid 1234]) \<and>
   list_all (\<lambda>e. \<not> ext4_builder e) [Fork, Waitpid 1234] \<and>
   take 4 (fs_type example_fstab) = ''ext4'' \<and>
   (\<exists>rc tr. fs_mgr_do_format example_headers example_os example_fstab = Some (Returns rc, tr) \<and>
      list_all (\<lambda>e. \<not> f2fs_subprocess e) tr) \<and>
   take 4 (fs_type (example_fstab\<lparr>fs_type := ''xfs''\<rparr>)) \<noteq> ''f2fs'' \<and>
   take 4 (fs_type (example_fstab\<lparr>fs_type := ''xfs''\<rparr>)) \<noteq> ''ext4'' \<and>
   fs_mgr_do_format example_headers example_os (example_fstab\<lparr>fs_type := ''xfs''\<rparr>) =
     Some (Returns (- EINVAL), [])"
proof -
  have f: "format_f2fs example_headers example_os ''/dev/block/userdata'' True =
      Some (Returns 0, [Fork, Waitpid 1234])"
    by (simp add: format_f2fs_def example_os_def Let_def
        wait_loop_exited [of _ 0 1234 0] WIFEXITED_def WEXITSTATUS_def)
  from do_format_dispatch [of "example_fstab\<lparr>fs_type := ''f2fs''\<rparr>" example_headers example_os]
    do_format_dispatch [of example_fstab example_headers example_os]
    do_format_dispatch [of "example_fstab\<lparr>fs_type := ''xfs''\<rparr>" example_headers example_os]
    f
  show ?thesis by (auto simp: example_fstab_def)
qed

text \<open>C1. The specification has the ext4 file system of a descriptor with key location
  \<open>footer\<close> built with length \<open>N * 512\<close> less the footer, as the comments in
  \<^verbatim>\<open>format_ext4\<close> announce. The code does otherwise; it is evaluated here on
  a device of 2048 sectors with a footer offset of 16384: the footer is wiped at
  \<open>1048576 - 16384 = 1032192\<close>, and the builder is then called with
  \<^verbatim>\<open>info.len = 1048576\<close>, the length of the whole device.\<close>

theorem ext4_builder_gets_whole_device:
  "fs_mgr_do_format example_headers example_os example_fstab =
     Some (Returns 0,
       [Open ''/dev/block/userdata'' O_RDWR, Blkgetsize ''/dev/block/userdata'',
        Lseek64 ''/dev/block/userdata'' 1032192,
        Write ''/dev/block/userdata'' (replicate 2048 0) 2048,
        Close ''/dev/block/userdata'', Reset_ext4fs_info,
        Make_ext4fs 1048576 ''/data'', Close ''/dev/block/userdata''])"
  by (simp add: fs_mgr_do_format_def format_ext4_def build_ext4_def example_headers_def
      example_os_def example_fstab_def CRYPT_KEY_IN_FOOTER_def strncmp_eq_literal4 Let_def)

text \<open>C2. The specification has a failed seek or a failed write of the zeroed footer abort
  the format before the builder runs. The code checks the seek only; it is evaluated here
  with a \<^verbatim>\<open>write\<close> that returns -1: the return value is not looked at, the builder is
  called and its status 0 is the result.\<close>

theorem failed_footer_write_still_builds:
  "fs_mgr_do_format example_headers (example_os\<lparr>os_write := \<lambda>path pos bs. - 1\<rparr>) example_fstab =
     Some (Returns 0,
       [Open ''/dev/block/userdata'' O_RDWR, Blkgetsize ''/dev/block/userdata'',
        Lseek64 ''/dev/block/userdata'' 1032192,
        Write ''/dev/block/userdata'' (replicate 2048 0) (- 1),
        Close ''/dev/block/userdata'', Reset_ext4fs_info,
        Make_ext4fs 1048576 ''/data'', Close ''/dev/block/userdata''])"
  by (simp add: fs_mgr_do_format_def format_ext4_def build_ext4_def example_headers_def
      example_os_def example_fstab_def CRYPT_KEY_IN_FOOTER_def strncmp_eq_literal4 Let_def)

text \<open>What holds of \<^verbatim>\<open>format_f2fs\<close> where the fork succeeds, for a footer offset that
  \<^verbatim>\<open>snprintf\<close> prints in full (at most nine digits): the child of the fork executes
  \<^verbatim>\<open>/sbin/mkfs.f2fs\<close> with the arguments \<open>-r\<close>, the footer in decimal
  (\<^verbatim>\<open>CRYPT_FOOTER_OFFSET\<close> when a footer is needed, \<open>0\<close> otherwise) and the device path.
  In the parent, when the wait reports that the child exited, exit status 0 gives the
  result 0 and any other exit status gives -1; and whatever the waits report, a call that
  returns returns 0 or -1.\<close>

lemma format_f2fs_args_and_status:
  assumes "0 \<le> sint (CRYPT_FOOTER_OFFSET H)" and "sint (CRYPT_FOOTER_OFFSET H) < 10 ^ 9"
  shows "(os_fork os = 0 \<longrightarrow>
            (\<exists>tr. format_f2fs H os dev needs_footer =
               Some (Child_gone,
                 Fork # Execv ''/sbin/mkfs.f2fs''
                   [''/sbin/mkfs.f2fs'', ''-r'',
                    if needs_footer then string_of_int (sint (CRYPT_FOOTER_OFFSET H)) else ''0'',
                    dev] # tr))) \<and>
         (os_fork os \<noteq> 0 \<and> os_waitpid os 0 = Reaped (os_fork os) s \<and> WIFEXITED s \<longrightarrow>
            format_f2fs H os dev needs_footer =
              Some (Returns (if WEXITSTATUS s = 0 then 0 else - 1), [Fork, Waitpid (os_fork os)])) \<and>
         (\<forall>rc tr. format_f2fs H os dev needs_footer = Some (Returns rc, tr) \<longrightarrow>
            rc = 0 \<or> rc = - 1)"
proof (intro conjI impI allI)
  assume child: "os_fork os = 0"
  have "snprintf_d 10 (sint (if needs_footer then CRYPT_FOOTER_OFFSET H else 0)) =
      (if needs_footer then string_of_int (sint (CRYPT_FOOTER_OFFSET H)) else ''0'')"
    using assms snprintf_d_small [of "sint (CRYPT_FOOTER_OFFSET H)"] snprintf_d_small [of 0]
    by (simp add: string_of_int_def string_of_nat_0)
  with child show "\<exists>tr. format_f2fs H os dev needs_footer =
               Some (Child_gone,
                 Fork # Execv ''/sbin/mkfs.f2fs''
                   [''/sbin/mkfs.f2fs'', ''-r'',
                    if needs_footer then string_of_int (sint (CRYPT_FOOTER_OFFSET H)) else ''0'',
                    dev] # tr)"
    by (simp add: format_f2fs_def Let_def)
next
  assume a: "os_fork os \<noteq> 0 \<and> os_waitpid os 0 = Reaped (os_fork os) s \<and> WIFEXITED s"
  then have "wait_loop (os_waitpid os) (os_fork os) 0 0 =
      Some (if WEXITSTATUS s \<noteq> 0 then - 1 else 0, Suc 0)"
    using wait_loop_exited [of "os_waitpid os" 0 "os_fork os" 0] by simp
  with a show "format_f2fs H os dev needs_footer =
      Some (Returns (if WEXITSTATUS s = 0 then 0 else - 1), [Fork, Waitpid (os_fork os)])"
    by (simp add: format_f2fs_def Let_def)
next
  fix rc tr
  assume "format_f2fs H os dev needs_footer = Some (Returns rc, tr)"
  then obtain m where "wait_loop (os_waitpid os) (os_fork os) 0 0 = Some (rc, m)"
    by (auto simp: format_f2fs_def Let_def split: if_splits)
  then show "rc = 0 \<or> rc = - 1" using wait_loop_range by fastforce
qed

lemma format_f2fs_args_and_status_example:
  "0 \<le> sint (CRYPT_FOOTER_OFFSET example_headers) \<and>
   sint (CRYPT_FOOTER_OFFSET example_headers) < 10 ^ 9 \<and>
   os_fork (example_os\<lparr>os_fork := 0\<rparr>) = 0 \<and>
   (\<exists>tr. format_f2fs example_headers (example_os\<lparr>os_fork := 0\<rparr>) ''/dev/block/userdata'' True =
      Some (Child_gone,
        Fork # Execv ''/sbin/mkfs.f2fs''
          [''/sbin/mkfs.f2fs'', ''-r'', ''16384'', ''/dev/block/userdata''] # tr)) \<and>
   (\<exists>tr. format_f2fs example_headers (example_os\<lparr>os_fork := 0\<rparr>) ''/dev/block/userdata'' False =
      Some (Child_gone,
        Fork # Execv ''/sbin/mkfs.f2fs''
          [''/sbin/mkfs.f2fs'', ''-r'', ''0'', ''/dev/block/userdata''] # tr)) \<and>
   os_fork (example_os\<lparr>os_waitpid := \<lambda>n. Reaped 1234 256\<rparr>) \<noteq> 0 \<and>
   os_waitpid (example_os\<lparr>os_waitpid := \<lambda>n. Reaped 1234 256\<rparr>) 0 =
     Reaped (os_fork (example_os\<lparr>os_waitpid := \<lambda>n. Reaped 1234 256\<rparr>)) 256 \<and>
   WIFEXITED 256 \<and>
   format_f2fs example_headers (example_os\<lparr>os_waitpid := \<lambda>n. Reaped 1234 256\<rparr>)
     ''/dev/block/userdata'' False = Some (Returns (- 1), [Fork, Waitpid 1234]) \<and>
   format_f2fs example_headers example_os ''/dev/block/userdata'' False =
     Some (Returns 0, [Fork, Waitpid 1234])"
proof -
  have h1: "0 \<le> sint (CRYPT_FOOTER_OFFSET example_headers)"
    and h2: "sint (CRYPT_FOOTER_OFFSET example_headers) < 10 ^ 9"
    by (simp_all add: example_headers_def)
  have s: "string_of_int (sint (CRYPT_FOOTER_OFFSET example_headers)) = ''16384''"
    by (simp add: example_headers_def string_of_int_def string_of_nat.simps)
  have w: "WIFEXITED 256" "WEXITSTATUS 256 = 1" "WIFEXITED 0" "WEXITSTATUS 0 = 0"
    by (simp_all add: WIFEXITED_def WEXITSTATUS_def)
  from format_f2fs_args_and_status [OF h1 h2, of "example_os\<lparr>os_fork := 0\<rparr>"
      "''/dev/block/userdata''" True]
    format_f2fs_args_and_status [OF h1 h2, of "example_os\<lparr>os_fork := 0\<rparr>"
      "''/dev/block/userdata''" False]
    format_f2fs_args_and_status [OF h1 h2, of "example_os\<lparr>os_waitpid := \<lambda>n. Reaped 1234 256\<rparr>"
      "''/dev/block/userdata''" False 256]
    format_f2fs_args_and_status [OF h1 h2, of example_os "''/dev/block/userdata''" False 0]
    h1 h2 s w
  show ?thesis by (simp add: example_os_def)
qed

text \<open>C7. The specification has every f2fs format call invoke the subprocess with the
  arguments \<open>-r\<close>, the footer and the device path, and report success only for a child
  that exits with status 0. The return value of \<^verbatim>\<open>fork\<close> is tested for 0 only, never
  for -1. The code is evaluated here with a \<^verbatim>\<open>fork\<close> that fails in a process without
  other children: no child exists and nothing is executed, \<^verbatim>\<open>waitpid(-1, &rc, 0)\<close>
  returns -1, which equals \<^verbatim>\<open>pid\<close>, \<^verbatim>\<open>rc\<close> still holds its initial 0, which reads as
  an exit with status 0, and the call returns 0.\<close>

theorem failed_fork_reports_success:
  "fs_mgr_do_format example_headers
     (example_os\<lparr>os_fork := - 1, os_waitpid := \<lambda>n. Wait_failed\<rparr>)
     (example_fstab\<lparr>fs_type := ''f2fs''\<rparr>) =
     Some (Returns 0, [Fork, Waitpid (- 1)])"
proof -
  have "wait_loop (\<lambda>n. Wait_failed) (- 1) 0 0 = Some (0, Suc 0)"
    using wait_loop_exited [of "\<lambda>n. Wait_failed" 0 "- 1" 0]
    by (simp add: WIFEXITED_def WEXITSTATUS_def)
  then show ?thesis
    by (simp add: fs_mgr_do_format_def format_f2fs_def example_os_def example_fstab_def
        strncmp_eq_literal4 Let_def)
qed

subsection \<open>The wait loop and the footer offset\<close>

lemma wait_loop_stops_now:
  assumes "waitpid_ret (ws n) \<noteq> pid \<or> WIFEXITED (waitpid_status (ws n) rc)"
  shows "\<exists>r. wait_loop ws pid rc n = Some (r, Suc n)"
proof (cases "waitpid_ret (ws n) = pid")
  case False
  then show ?thesis by (simp add: wait_loop_mismatch)
next
  case True
  with assms have "WIFEXITED (waitpid_status (ws n) rc)" by simp
  with True show ?thesis by (simp add: wait_loop_exited)
qed

lemma wait_loop_stops:
  "waitpid_ret (ws (n + k)) \<noteq> pid \<or> (\<exists>s. ws (n + k) = Reaped pid s \<and> WIFEXITED s) \<Longrightarrow>
   \<exists>r m. wait_loop ws pid rc n = Some (r, m) \<and> m \<le> Suc (n + k)"
proof (induction k arbitrary: n rc)
  case 0
  then consider "waitpid_ret (ws n) \<noteq> pid" | s where "ws n = Reaped pid s" "WIFEXITED s"
    by auto
  then have "waitpid_ret (ws n) \<noteq> pid \<or> WIFEXITED (waitpid_status (ws n) rc)"
    by cases simp_all
  from wait_loop_stops_now [of ws n pid rc, OF this] show ?case by auto
next
  case (Suc k)
  show ?case
  proof (cases "waitpid_ret (ws n) = pid \<and> \<not> WIFEXITED (waitpid_status (ws n) rc)")
    case True
    then have "wait_loop ws pid rc n = wait_loop ws pid (waitpid_status (ws n) rc) (Suc n)"
      using wait_loop_again [of ws n pid rc] by simp
    moreover from Suc.prems
    have "\<exists>r m. wait_loop ws pid (waitpid_status (ws n) rc) (Suc n) = Some (r, m) \<and>
        m \<le> Suc (Suc n + k)"
      by (intro Suc.IH) simp
    ultimately show ?thesis by simp
  next
    case False
    then have "waitpid_ret (ws n) \<noteq> pid \<or> WIFEXITED (waitpid_status (ws n) rc)" by auto
    from wait_loop_stops_now [of ws n pid rc, OF this] show ?thesis by auto
  qed
qed

text \<open>The footer offset as a 64-bit value: the subtraction never leaves the range of
  \<^verbatim>\<open>off64_t\<close>, so its signed reading is the mathematical difference.\<close>

lemma footer_off_of_int:
  fixes nr_sec fo :: "32 word"
  shows "(ucast nr_sec :: 64 word) * 512 - scast fo = word_of_int (uint nr_sec * 512 - sint fo)"
proof -
  have "word_of_int (uint nr_sec * 512 - sint fo) =
      (word_of_int (uint nr_sec) :: 64 word) * 512 - word_of_int (sint fo)"
    by (simp only: of_int_diff of_int_mult of_int_numeral)
  then show ?thesis by (simp only: ucast_eq [symmetric] scast_eq [symmetric])
qed

lemma sint_footer_off:
  fixes nr_sec fo :: "32 word"
  shows "sint ((ucast nr_sec :: 64 word) * 512 - scast fo) = uint nr_sec * 512 - sint fo"
proof -
  have u: "0 \<le> uint nr_sec" "uint nr_sec < 4294967296"
    using uint_bounded [of nr_sec] by simp_all
  have s: "- 2147483648 \<le> sint fo" "sint fo < 2147483648"
    using sint_ge [of fo] sint_lt [of fo] by simp_all
  have lo: "- 9223372036854775808 \<le> uint nr_sec * 512 - sint fo"
    using u s by linarith
  have hi: "uint nr_sec * 512 - sint fo < 9223372036854775808"
    using u s by linarith
  have "sint (word_of_int (uint nr_sec * 512 - sint fo) :: 64 word) =
      signed_take_bit (LENGTH(64) - 1) (uint nr_sec * 512 - sint fo)"
    by (rule sint_sbintrunc')
  also have "\<dots> = uint nr_sec * 512 - sint fo"
    by (rule signed_take_bit_int_eq_self) (use lo hi in simp_all)
  finally show ?thesis unfolding footer_off_of_int .
qed

lemma uint_footer_off:
  fixes nr_sec fo :: "32 word"
  assumes "uint nr_sec * 512 < sint fo"
  shows "uint ((ucast nr_sec :: 64 word) * 512 - scast fo) =
           18446744073709551616 + uint nr_sec * 512 - sint fo"
proof -
  let ?x = "uint nr_sec * 512 - sint fo"
  have u: "0 \<le> uint nr_sec" by simp
  have s: "sint fo < 2147483648" using sint_lt [of fo] by simp
  have lo: "0 \<le> ?x + 18446744073709551616" using u s by linarith
  have hi: "?x + 18446744073709551616 < 18446744073709551616" using assms by linarith
  have "uint (word_of_int ?x :: 64 word) = ?x mod 2 ^ LENGTH(64)"
    by (rule uint_word_of_int)
  also have "\<dots> = ?x mod 18446744073709551616" by simp
  also have "\<dots> = (?x + 18446744073709551616) mod 18446744073709551616" by simp
  also have "\<dots> = ?x + 18446744073709551616" using lo hi by (rule mod_pos_pos_trivial)
  finally show ?thesis unfolding footer_off_of_int by (simp only: algebra_simps)
qed

text \<open>The loop does not end on its own: reports of the child's pid with a signal status,
  one after the other without end, keep it going.\<close>

lemma wait_loop_no_result:
  assumes "wait_loop ws pid rc n = Some y"
  shows "ws \<noteq> (\<lambda>n. Reaped pid 9)"
proof (rule wait_loop.raw_induct
    [where P = "\<lambda>ws pid rc n y. ws \<noteq> (\<lambda>n. Reaped pid 9)", OF _ assms])
  fix wait_loop' ws pid rc n y
  assume IH: "\<And>ws pid rc n y. wait_loop' ws pid rc n = Some y \<Longrightarrow> ws \<noteq> (\<lambda>n. Reaped pid 9)"
    and body: "(let p = waitpid_ret (ws n); rc = waitpid_status (ws n) rc
      in if p \<noteq> pid then Some (- 1, Suc n)
         else if WIFEXITED rc
              then let rc = WEXITSTATUS rc
                   in Some (if rc \<noteq> 0 then - 1 else rc, Suc n)
              else wait_loop' ws pid rc (Suc n)) = Some y"
  show "ws \<noteq> (\<lambda>n. Reaped pid 9)"
  proof
    assume ws: "ws = (\<lambda>n. Reaped pid 9)"
    with body have "wait_loop' ws pid 9 (Suc n) = Some y"
      by (simp add: Let_def WIFEXITED_def)
    from IH [OF this] ws show False by simp
  qed
qed

lemma wait_loop_can_spin: "wait_loop (\<lambda>n. Reaped pid 9) pid rc n = None"
  using wait_loop_no_result [of "\<lambda>n. Reaped pid 9" pid rc n]
  by (cases "wait_loop (\<lambda>n. Reaped pid 9) pid rc n") auto


text \<open>C9. The wait loop of \<^verbatim>\<open>format_f2fs\<close>. A wait that does not return the child's pid
  ends the loop at once with -1, at whatever call it happens: a failed wait is never
  retried. The loop calls \<^verbatim>\<open>waitpid\<close> again only after a call that returned the child's
  pid with a status other than a normal exit, so it returns as soon as one call fails or
  reports an exit, after that many calls. When the outcomes are ones the system can
  produce for \<^verbatim>\<open>waitpid(pid, &rc, 0)\<close>, where a status is reported for a process at most
  once (the process is reaped; waiting for it again fails) and reported pids are
  positive, the loop returns after at most two calls and \<^verbatim>\<open>format_f2fs\<close> returns.
  (\<open>wait_loop_can_spin\<close> shows the restriction is needed: an endless run of reports of
  the child's pid with a signal status would keep the loop going.)\<close>

theorem wait_loop_terminates:
  "(waitpid_ret (os_waitpid os n) \<noteq> pid \<longrightarrow>
      wait_loop (os_waitpid os) pid rc n = Some (- 1, Suc n)) \<and>
   (waitpid_ret (os_waitpid os (n + k)) \<noteq> pid \<or>
    (\<exists>s. os_waitpid os (n + k) = Reaped pid s \<and> WIFEXITED s) \<longrightarrow>
      (\<exists>r m. wait_loop (os_waitpid os) pid rc n = Some (r, m) \<and> m \<le> Suc (n + k))) \<and>
   ((\<forall>i p s. os_waitpid os i = Reaped p s \<longrightarrow>
        0 < p \<and> (\<forall>j s'. i < j \<longrightarrow> os_waitpid os j \<noteq> Reaped p s')) \<longrightarrow>
      (\<exists>r m. wait_loop (os_waitpid os) pid 0 0 = Some (r, m) \<and> m \<le> 2) \<and>
      (\<exists>r tr. format_f2fs H os dev needs_footer = Some (r, tr)))"
proof (intro conjI impI)
  let ?ws = "os_waitpid os"
  assume "waitpid_ret (?ws n) \<noteq> pid"
  then show "wait_loop ?ws pid rc n = Some (- 1, Suc n)" by (rule wait_loop_mismatch)
next
  let ?ws = "os_waitpid os"
  assume "waitpid_ret (?ws (n + k)) \<noteq> pid \<or> (\<exists>s. ?ws (n + k) = Reaped pid s \<and> WIFEXITED s)"
  then show "\<exists>r m. wait_loop ?ws pid rc n = Some (r, m) \<and> m \<le> Suc (n + k)"
    by (rule wait_loop_stops)
next
  let ?ws = "os_waitpid os"
  assume once: "\<forall>i p s. ?ws i = Reaped p s \<longrightarrow> 0 < p \<and> (\<forall>j s'. i < j \<longrightarrow> ?ws j \<noteq> Reaped p s')"
  have two: "\<exists>r m. wait_loop ?ws pid 0 0 = Some (r, m) \<and> m \<le> 2" for pid
  proof (cases "waitpid_ret (?ws 0) = pid \<and> \<not> WIFEXITED (waitpid_status (?ws 0) 0)")
    case False
    then have "waitpid_ret (?ws 0) \<noteq> pid \<or> WIFEXITED (waitpid_status (?ws 0) 0)" by auto
    from wait_loop_stops_now [of ?ws 0 pid 0, OF this] show ?thesis by auto
  next
    case True
    then obtain s where w0: "?ws 0 = Reaped pid s" and ns: "\<not> WIFEXITED s"
      by (cases "?ws 0") (auto simp: WIFEXITED_def)
    from once w0 have pos: "0 < pid" and nomore: "\<And>s'. ?ws 1 \<noteq> Reaped pid s'"
      by auto
    have "waitpid_ret (?ws 1) \<noteq> pid"
      using pos nomore by (cases "?ws 1") auto
    then have "wait_loop ?ws pid s (Suc 0) = Some (- 1, Suc (Suc 0))"
      using wait_loop_mismatch [of ?ws "Suc 0" pid s] by simp
    moreover have "wait_loop ?ws pid 0 0 = wait_loop ?ws pid s (Suc 0)"
      using wait_loop_again [of ?ws 0 pid 0] w0 ns by simp
    ultimately show ?thesis by simp
  qed
  show "\<exists>r m. wait_loop ?ws pid 0 0 = Some (r, m) \<and> m \<le> 2" by (rule two)
  show "\<exists>r tr. format_f2fs H os dev needs_footer = Some (r, tr)"
  proof (cases "os_fork os = 0")
    case True
    then show ?thesis by (simp add: format_f2fs_def Let_def)
  next
    case False
    with two [of "os_fork os"] show ?thesis by (auto simp: format_f2fs_def Let_def)
  qed
qed

theorem wait_loop_terminates_witness:
  "waitpid_ret (os_waitpid
      (example_os\<lparr>os_waitpid := \<lambda>n. if n = 0 then Reaped 1234 9 else Wait_failed\<rparr>) 1) \<noteq> 1234 \<and>
   wait_loop (\<lambda>n. if n = 0 then Reaped 1234 9 else Wait_failed) 1234 9 1 = Some (- 1, 2) \<and>
   (\<exists>s. os_waitpid (example_os\<lparr>os_waitpid := \<lambda>n. Reaped 1234 (if n = 2 then 0 else 9)\<rparr>) (0 + 2)
          = Reaped 1234 s \<and> WIFEXITED s) \<and>
   (\<exists>r m. wait_loop (\<lambda>n. Reaped 1234 (if n = 2 then 0 else 9)) 1234 0 0 = Some (r, m) \<and> m \<le> 3) \<and>
   (\<exists>r m. wait_loop (\<lambda>n. if n = 0 then Reaped 1234 9 else Wait_failed) 1234 0 0 = Some (r, m) \<and>
      m \<le> 2) \<and>
   (\<exists>r tr. format_f2fs example_headers
     (example_os\<lparr>os_waitpid := \<lambda>n. if n = 0 then Reaped 1234 9 else Wait_failed\<rparr>)
     ''/dev/block/userdata'' True = Some (r, tr))"
proof -
  let ?ws = "\<lambda>n :: nat. if n = 0 then Reaped 1234 9 else Wait_failed"
  let ?ws2 = "\<lambda>n :: nat. Reaped 1234 (if n = 2 then 0 else 9)"
  let ?os = "example_os\<lparr>os_waitpid := ?ws\<rparr>"
  let ?os2 = "example_os\<lparr>os_waitpid := ?ws2\<rparr>"
  have h1: "waitpid_ret (os_waitpid ?os 1) \<noteq> 1234" by simp
  have h2: "\<exists>s. os_waitpid ?os2 (0 + 2) = Reaped 1234 s \<and> WIFEXITED s"
    by (simp add: WIFEXITED_def)
  have h3: "\<forall>i p s. os_waitpid ?os i = Reaped p s \<longrightarrow>
      0 < p \<and> (\<forall>j s'. i < j \<longrightarrow> os_waitpid ?os j \<noteq> Reaped p s')"
    by simp
  from wait_loop_terminates [of ?os 1 1234 9 0 example_headers "''/dev/block/userdata''" True] h1
  have a: "wait_loop ?ws 1234 9 1 = Some (- 1, 2)" by simp
  from wait_loop_terminates [of ?os2 0 1234 0 2 example_headers "''/dev/block/userdata''" True] h2
  have "\<exists>r m. wait_loop ?ws2 1234 0 0 = Some (r, m) \<and> m \<le> Suc (0 + 2)" by simp
  then have b: "\<exists>r m. wait_loop ?ws2 1234 0 0 = Some (r, m) \<and> m \<le> 3"
    by (simp add: numeral_3_eq_3)
  from wait_loop_terminates [of ?os 0 1234 0 0 example_headers "''/dev/block/userdata''" True] h3
  have c: "(\<exists>r m. wait_loop ?ws 1234 0 0 = Some (r, m) \<and> m \<le> 2) \<and>
      (\<exists>r tr. format_f2fs example_headers ?os ''/dev/block/userdata'' True = Some (r, tr))"
    by simp
  from h1 a h2 b c show ?thesis by blast
qed

text \<open>C8. On a device smaller than the footer offset (\<open>sectors * 512 < CRYPT_FOOTER_OFFSET\<close>)
  the offset \<open>sectors * 512 - CRYPT_FOOTER_OFFSET\<close> that \<^verbatim>\<open>format_ext4\<close> and
  \<^verbatim>\<open>fs_mgr_is_partition_encrypted\<close> compute is negative as an \<^verbatim>\<open>off64_t\<close>, which is
  \<open>2 ^ 64\<close> less the shortfall, at least \<open>2 ^ 63\<close>, as an unsigned value. Neither function
  checks it: both hand it to \<^verbatim>\<open>lseek64\<close> as it is, and when the seek is accepted
  \<^verbatim>\<open>format_ext4\<close> goes on to write the footer there and to call the builder, whose status
  it returns.\<close>

theorem small_device_offset_wraps:
  assumes small: "uint nr_sec * 512 < sint (CRYPT_FOOTER_OFFSET H)"
    and op: "os_open os dev"
    and sz: "os_blkgetsize os dev = Some nr_sec"
    and off: "off = (ucast nr_sec :: 64 word) * 512 - scast (CRYPT_FOOTER_OFFSET H)"
  shows "sint off = uint nr_sec * 512 - sint (CRYPT_FOOTER_OFFSET H) \<and> sint off < 0 \<and>
         uint off = 2 ^ 64 - (sint (CRYPT_FOOTER_OFFSET H) - uint nr_sec * 512) \<and>
         2 ^ 63 \<le> uint off \<and>
         (\<exists>tr. snd (format_ext4 H os dev mnt True) =
                 Open dev O_RDWR # Blkgetsize dev # Lseek64 dev off # tr) \<and>
         (os_lseek64 os dev off \<longrightarrow>
            format_ext4 H os dev mnt True =
              (os_make_ext4fs os (ucast nr_sec * 512) mnt,
               [Open dev O_RDWR, Blkgetsize dev, Lseek64 dev off,
                Write dev (replicate (sizeof_crypt_mnt_ftr H) 0)
                  (os_write os dev off (replicate (sizeof_crypt_mnt_ftr H) 0)),
                Close dev, Reset_ext4fs_info, Make_ext4fs (ucast nr_sec * 512) mnt, Close dev])) \<and>
         (fs_mgr_is_encryptable fstab \<and> key_loc fstab = Some ''footer'' \<and> blk_device fstab = dev \<longrightarrow>
            (\<exists>r tr. fs_mgr_is_partition_encrypted H os fstab =
                      Inr (r, Open dev O_RDWR # Blkgetsize dev # Lseek64 dev off # tr)))"
proof -
  have s: "sint off = uint nr_sec * 512 - sint (CRYPT_FOOTER_OFFSET H)"
    unfolding off by (rule sint_footer_off)
  have neg: "sint off < 0" using s small by simp
  have u: "uint off = 18446744073709551616 + uint nr_sec * 512 - sint (CRYPT_FOOTER_OFFSET H)"
    unfolding off using small by (rule uint_footer_off)
  have fo: "sint (CRYPT_FOOTER_OFFSET H) < 2147483648"
    using sint_lt [of "CRYPT_FOOTER_OFFSET H"] by simp
  have big: "9223372036854775808 \<le> uint off"
    using u fo uint_nonnegative [of nr_sec] by linarith
  have tr: "\<exists>tr. snd (format_ext4 H os dev mnt True) =
                 Open dev O_RDWR # Blkgetsize dev # Lseek64 dev off # tr"
    using op sz by (simp add: format_ext4_def build_ext4_def Let_def off)
  have go: "format_ext4 H os dev mnt True =
              (os_make_ext4fs os (ucast nr_sec * 512) mnt,
               [Open dev O_RDWR, Blkgetsize dev, Lseek64 dev off,
                Write dev (replicate (sizeof_crypt_mnt_ftr H) 0)
                  (os_write os dev off (replicate (sizeof_crypt_mnt_ftr H) 0)),
                Close dev, Reset_ext4fs_info, Make_ext4fs (ucast nr_sec * 512) mnt, Close dev])"
    if "os_lseek64 os dev off"
    using op sz that by (simp add: format_ext4_def build_ext4_def Let_def off)
  have enc: "\<exists>r tr. fs_mgr_is_partition_encrypted H os fstab =
                      Inr (r, Open dev O_RDWR # Blkgetsize dev # Lseek64 dev off # tr)"
    if "fs_mgr_is_encryptable fstab \<and> key_loc fstab = Some ''footer'' \<and> blk_device fstab = dev"
  proof (cases "os_lseek64 os dev off")
    case False
    with that op sz show ?thesis
      by (simp add: fs_mgr_is_partition_encrypted_def CRYPT_KEY_IN_FOOTER_def Let_def off)
  next
    case True
    obtain r tr0 where rc: "read_crypt_magic os dev off
        [Open dev O_RDWR, Blkgetsize dev, Lseek64 dev off] = (r, tr0)"
      by (cases "read_crypt_magic os dev off [Open dev O_RDWR, Blkgetsize dev, Lseek64 dev off]")
    then have "\<exists>tr. tr0 = Open dev O_RDWR # Blkgetsize dev # Lseek64 dev off # tr"
      by (auto simp: read_crypt_magic_def split: option.splits if_splits)
    with rc True that op sz show ?thesis
      by (auto simp: fs_mgr_is_partition_encrypted_def CRYPT_KEY_IN_FOOTER_def Let_def off)
  qed
  from s neg u big tr go enc show ?thesis by simp
qed

theorem small_device_offset_wraps_witness:
  "uint (8 :: 32 word) * 512 < sint (CRYPT_FOOTER_OFFSET example_headers) \<and>
   os_open (example_os\<lparr>os_blkgetsize := \<lambda>path. Some 8\<rparr>) ''/dev/block/userdata'' \<and>
   os_blkgetsize (example_os\<lparr>os_blkgetsize := \<lambda>path. Some 8\<rparr>) ''/dev/block/userdata'' = Some 8 \<and>
   (- 12288 :: 64 word) =
     (ucast (8 :: 32 word) :: 64 word) * 512 - scast (CRYPT_FOOTER_OFFSET example_headers) \<and>
   sint (- 12288 :: 64 word) = - 12288 \<and>
   uint (- 12288 :: 64 word) = 18446744073709539328 \<and>
   os_lseek64 (example_os\<lparr>os_blkgetsize := \<lambda>path. Some 8\<rparr>) ''/dev/block/userdata'' (- 12288) \<and>
   format_ext4 example_headers (example_os\<lparr>os_blkgetsize := \<lambda>path. Some 8\<rparr>)
     ''/dev/block/userdata'' ''/data'' True =
     (0, [Open ''/dev/block/userdata'' O_RDWR, Blkgetsize ''/dev/block/userdata'',
          Lseek64 ''/dev/block/userdata'' (- 12288),
          Write ''/dev/block/userdata'' (replicate 2048 0) 2048,
          Close ''/dev/block/userdata'', Reset_ext4fs_info,
          Make_ext4fs 4096 ''/data'', Close ''/dev/block/userdata'']) \<and>
   fs_mgr_is_encryptable example_fstab \<and> key_loc example_fstab = Some ''footer'' \<and>
   blk_device example_fstab = ''/dev/block/userdata'' \<and>
   (\<exists>r tr. fs_mgr_is_partition_encrypted example_headers
       (example_os\<lparr>os_blkgetsize := \<lambda>path. Some 8\<rparr>) example_fstab =
     Inr (r, Open ''/dev/block/userdata'' O_RDWR # Blkgetsize ''/dev/block/userdata'' #
             Lseek64 ''/dev/block/userdata'' (- 12288) # tr))"
proof -
  let ?os = "example_os\<lparr>os_blkgetsize := \<lambda>path. Some 8\<rparr>"
  let ?dev = "''/dev/block/userdata''"
  have h1: "uint (8 :: 32 word) * 512 < sint (CRYPT_FOOTER_OFFSET example_headers)"
    by (simp add: example_headers_def)
  have h2: "os_open ?os ?dev" by (simp add: example_os_def)
  have h3: "os_blkgetsize ?os ?dev = Some 8" by simp
  have h4: "(- 12288 :: 64 word) =
     (ucast (8 :: 32 word) :: 64 word) * 512 - scast (CRYPT_FOOTER_OFFSET example_headers)"
    by (simp add: example_headers_def)
  have h5: "os_lseek64 ?os ?dev (- 12288)" by (simp add: example_os_def)
  have h6: "fs_mgr_is_encryptable example_fstab \<and> key_loc example_fstab = Some ''footer'' \<and>
      blk_device example_fstab = ?dev"
    by (simp add: example_fstab_def fs_mgr_is_encryptable_def)
  note wraps = small_device_offset_wraps [OF h1 h2 h3 h4, of "''/data''" example_fstab]
  from wraps have "sint (- 12288 :: 64 word) =
      uint (8 :: 32 word) * 512 - sint (CRYPT_FOOTER_OFFSET example_headers)"
    by blast
  then have c1: "sint (- 12288 :: 64 word) = - 12288" by (simp add: example_headers_def)
  from wraps have "uint (- 12288 :: 64 word) =
      2 ^ 64 - (sint (CRYPT_FOOTER_OFFSET example_headers) - uint (8 :: 32 word) * 512)"
    by blast
  then have c2: "uint (- 12288 :: 64 word) = 18446744073709539328"
    by (simp add: example_headers_def)
  from wraps h5 have "format_ext4 example_headers ?os ?dev ''/data'' True =
      (os_make_ext4fs ?os (ucast (8 :: 32 word) * 512) ''/data'',
       [Open ?dev O_RDWR, Blkgetsize ?dev, Lseek64 ?dev (- 12288),
        Write ?dev (replicate (sizeof_crypt_mnt_ftr example_headers) 0)
          (os_write ?os ?dev (- 12288) (replicate (sizeof_crypt_mnt_ftr example_headers) 0)),
        Close ?dev, Reset_ext4fs_info, Make_ext4fs (ucast (8 :: 32 word) * 512) ''/data'',
        Close ?dev])"
    by blast
  then have c3: "format_ext4 example_headers ?os ?dev ''/data'' True =
     (0, [Open ?dev O_RDWR, Blkgetsize ?dev, Lseek64 ?dev (- 12288),
          Write ?dev (replicate 2048 0) 2048, Close ?dev, Reset_ext4fs_info,
          Make_ext4fs 4096 ''/data'', Close ?dev])"
    by (simp add: example_headers_def example_os_def)
  from wraps h6 have c4: "\<exists>r tr. fs_mgr_is_partition_encrypted example_headers ?os example_fstab =
     Inr (r, Open ?dev O_RDWR # Blkgetsize ?dev # Lseek64 ?dev (- 12288) # tr)"
    by blast
  from h1 h2 h3 h4 h5 h6 c1 c2 c3 c4 show ?thesis by blast
qed

end
